theory Spec2Isabelle
  imports Complex_Main
begin

section \<open>Flight metrics engine (statsListener in Viewer.tsx)\<close>

text \<open>
  A fix of an IGC track, as igc-parser delivers it: the timestamp in milliseconds, the
  position in degrees, and the two altitudes, each of which may be null.
\<close>

record Fix =
  timestamp :: int
  latitude :: real
  longitude :: real
  gpsAltitude :: "real option"
  pressureAltitude :: "real option"

text \<open>
  The source's binary search, used twice in statsListener:
  \<^verbatim>\<open>
  while (min <= max) {
    const mid = Math.floor((min + max) / 2);
    if (track.fixes[mid].timestamp < trackTime) min = mid + 1;
    else max = mid - 1;
  }
  currentIndex = max;
  \<close>
  The indices are integers because \<open>max\<close> reaches \<open>-1\<close>. The loop is entered with
  \<open>0 \<le> min\<close> and \<open>max < length fixes\<close>, so every read is in range.
\<close>

function searchLoop :: "Fix list \<Rightarrow> int \<Rightarrow> int \<Rightarrow> int \<Rightarrow> int" where
  "searchLoop fs target lo hi =
     (if lo \<le> hi then
        (let mid = (lo + hi) div 2 in
         if timestamp (fs ! nat mid) < target
         then searchLoop fs target (mid + 1) hi
         else searchLoop fs target lo (mid - 1))
      else hi)"
  by pat_completeness auto
termination
  by (relation "measure (\<lambda>(fs, target, lo, hi). nat (hi - lo + 1))") auto

declare searchLoop.simps [simp del]

definition currentIndexOf :: "Fix list \<Rightarrow> int \<Rightarrow> int" where
  "currentIndexOf fixes trackTime = searchLoop fixes trackTime 0 (int (length fixes) - 1)"

definition pastIndexOf :: "Fix list \<Rightarrow> int \<Rightarrow> int" where
  "pastIndexOf fixes trackTime =
     searchLoop fixes (trackTime - 15000) 0 (currentIndexOf fixes trackTime)"

text \<open>
  JavaScript's \<open>a || b\<close> on a nullable number: \<open>null\<close> and \<open>0\<close> are falsy, so the
  right operand is taken for both. \<open>orNullable\<close> is \<open>a || b\<close> with \<open>b\<close> nullable,
  \<open>orNumber\<close> is \<open>a || d\<close> with \<open>d\<close> a number.
\<close>

definition orNullable :: "real option \<Rightarrow> real option \<Rightarrow> real option" where
  "orNullable a b = (case a of None \<Rightarrow> b | Some v \<Rightarrow> if v = 0 then b else Some v)"

definition orNumber :: "real option \<Rightarrow> real \<Rightarrow> real" where
  "orNumber a d = (case a of None \<Rightarrow> d | Some v \<Rightarrow> if v = 0 then d else v)"

record PilotStats =
  speed :: real
  vario :: real
  agl :: real

text \<open>
  The body of \<open>trackEntities.forEach\<close> for one track, from the search for the current
  fix to the entry written into \<open>newStats\<close>; \<open>None\<close> when no entry is written.
  Cesium is outside the repository, so its two calls are parameters:
  \<open>distance (lon1, lat1, h1) (lon2, lat2, h2)\<close> stands for
  \<open>Cartesian3.distance(Cartesian3.fromDegrees(lon1, lat1, h1), Cartesian3.fromDegrees(lon2, lat2, h2))\<close>
  and \<open>getHeight lon lat\<close> for
  \<open>viewer.scene.globe.getHeight(Cartographic.fromDegrees(lon, lat))\<close>, which is
  \<open>undefined\<close> (here \<open>None\<close>) where the terrain is not known.
\<close>

definition trackStats ::
  "(real \<times> real \<times> real \<Rightarrow> real \<times> real \<times> real \<Rightarrow> real) \<Rightarrow> (real \<Rightarrow> real \<Rightarrow> real option) \<Rightarrow>
   Fix list \<Rightarrow> int \<Rightarrow> PilotStats option" where
  "trackStats distance getHeight fixes trackTime =
     (let currentIndex = currentIndexOf fixes trackTime in
      if currentIndex \<ge> 0 \<and> currentIndex < int (length fixes) then
        (let currentFix = fixes ! nat currentIndex;
             pastIndex = pastIndexOf fixes trackTime in
         if pastIndex \<ge> 0 \<and> pastIndex < currentIndex then
           (let pastFix = fixes ! nat pastIndex;
                dt = real_of_int (timestamp currentFix - timestamp pastFix) / 1000 in
            if dt > 0 then
              (let p1 = (longitude pastFix, latitude pastFix, orNumber (gpsAltitude pastFix) 0);
                   p2 = (longitude currentFix, latitude currentFix,
                          orNumber (gpsAltitude currentFix) 0);
                   dist = distance p1 p2;
                   altDiff = orNumber (gpsAltitude currentFix) 0 - orNumber (gpsAltitude pastFix) 0;
                   speed = (dist / dt) * 3.6;
                   vario = altDiff / dt;
                   agl = (case getHeight (longitude currentFix) (latitude currentFix) of
                            None \<Rightarrow> 0
                          | Some globeHeight \<Rightarrow>
                              orNumber (orNullable (gpsAltitude currentFix)
                                          (pressureAltitude currentFix)) 0 - globeHeight)
               in Some \<lparr>speed = speed, vario = vario, agl = agl\<rparr>)
            else None)
         else None)
      else None)"

text \<open>
  The effective altitude in the words of the specification: the GPS altitude if present,
  else the barometric altitude, else 0. It is stated here to be compared with what
  \<open>trackStats\<close> computes.
\<close>

definition effectiveAltitude :: "Fix \<Rightarrow> real" where
  "effectiveAltitude f =
     (case gpsAltitude f of Some g \<Rightarrow> g
      | None \<Rightarrow> (case pressureAltitude f of Some b \<Rightarrow> b | None \<Rightarrow> 0))"

section \<open>Task path optimizer (calculateOptimizedPath)\<close>

subsection \<open>The task\<close>

datatype TurnpointType = TAKEOFF | SSS | TURNPOINT | ESS | GOAL

text \<open>
  \<open>XCTaskPoint\<close> of types/task.ts; \<open>alt\<close> is optional there. The fields \<open>name\<close> and
  \<open>description\<close>, and the fields of \<open>XCTask\<close> other than \<open>turnpoints\<close>, are not read by
  the optimizer.
\<close>

record XCTaskPoint =
  lat :: real
  lon :: real
  alt :: "real option"
  radius :: real
  type :: TurnpointType

record XCTask =
  turnpoints :: "XCTaskPoint list"

text \<open>\<open>Array.prototype.findIndex\<close>: the first index whose element satisfies the test, or -1.\<close>

fun findIndex :: "('a \<Rightarrow> bool) \<Rightarrow> 'a list \<Rightarrow> int" where
  "findIndex P [] = - 1"
| "findIndex P (e # es) =
     (if P e then 0 else (let k = findIndex P es in if k = - 1 then - 1 else k + 1))"

definition startIndexOf :: "XCTask \<Rightarrow> int" where
  "startIndexOf task =
     (let startIndex = findIndex (\<lambda>tp. type tp = SSS) (turnpoints task)
      in if startIndex = - 1 then 0 else startIndex)"

definition endIndexOf :: "XCTask \<Rightarrow> int" where
  "endIndexOf task =
     (let endIndex = findIndex (\<lambda>tp. type tp = ESS) (turnpoints task);
          endIndex = (if endIndex = - 1
                      then findIndex (\<lambda>tp. type tp = GOAL) (turnpoints task) else endIndex)
      in if endIndex = - 1 then int (length (turnpoints task)) - 1 else endIndex)"

text \<open>\<open>task.turnpoints.slice(startIndex, endIndex + 1)\<close>, for \<open>0 \<le> startIndex\<close>.\<close>

definition relevantTPs :: "XCTask \<Rightarrow> XCTaskPoint list" where
  "relevantTPs task =
     take (nat (endIndexOf task + 1 - startIndexOf task))
       (drop (nat (startIndexOf task)) (turnpoints task))"

subsection \<open>The projection\<close>

text \<open>
  The first \<open>calculateOptimizedPath\<close> of the optimization module computes the two scale
  factors once, from the latitude of \<open>points[0]\<close>:
  \<^verbatim>\<open>
  const centerLat = points[0].lat;
  const kx = 111132.954 * Math.cos(centerLat * Math.PI / 180);
  const ky = 111132.954 - 559.822 * Math.cos(2 * centerLat * Math.PI / 180);
  \<close>
  JavaScript numbers are modelled as real numbers in this section: there is no rounding,
  no overflow and no NaN here. A later section transcribes the optimizer over numbers
  with NaN and the infinities.
\<close>

definition kxAt :: "real \<Rightarrow> real" where
  "kxAt centerLat = 111132.954 * cos (centerLat * pi / 180)"

definition kyAt :: "real \<Rightarrow> real" where
  "kyAt centerLat = 111132.954 - 559.822 * cos (2 * centerLat * pi / 180)"

text \<open>A point \<open>{ x, y }\<close> of the local plane, in metres, and a \<open>{ lat, lon }\<close> pair.\<close>

record Point =
  px :: real
  py :: real

record LatLon =
  geoLat :: real
  geoLon :: real

text \<open>The two closures, with \<open>points[0]\<close> as the argument \<open>origin\<close>.\<close>

definition toLocal :: "XCTaskPoint \<Rightarrow> real \<Rightarrow> real \<Rightarrow> Point" where
  "toLocal origin lon' lat' =
     (let dy = (lat' - lat origin) * kyAt (lat origin);
          dx = (lon' - lon origin) * kxAt (lat origin)
      in \<lparr>px = dx, py = dy\<rparr>)"

definition fromLocal :: "XCTaskPoint \<Rightarrow> real \<Rightarrow> real \<Rightarrow> LatLon" where
  "fromLocal origin x y =
     (let dLat = y / kyAt (lat origin);
          dLon = x / kxAt (lat origin)
      in \<lparr>geoLat = lat origin + dLat, geoLon = lon origin + dLon\<rparr>)"

text \<open>
  The second \<open>calculateOptimizedPath\<close> in the same source part computes the scale
  factors of \<open>toLocal\<close> from the latitude of the point it converts, and those of
  \<open>fromLocal\<close> from the latitude of \<open>points[0]\<close>:
  \<^verbatim>\<open>
  const toLocal = (lon: number, lat: number) => {
    const ky = 111132.954 - 559.822 * Math.cos(2 * lat * Math.PI / 180);
    const kx = 111132.954 * Math.cos(lat * Math.PI / 180);
    const dy = (lat - points[0].lat) * ky;
    const dx = (lon - points[0].lon) * kx;
    return { x: dx, y: dy };
  };
  const fromLocal = (x: number, y: number) => {
    const centerLat = points[0].lat;
    const ky = 111132.954 - 559.822 * Math.cos(2 * centerLat * Math.PI / 180);
    const kx = 111132.954 * Math.cos(centerLat * Math.PI / 180);
    const dLat = y / ky;
    const dLon = x / kx;
    return { lat: points[0].lat + dLat, lon: points[0].lon + dLon };
  };
  \<close>
\<close>

definition toLocal2 :: "XCTaskPoint \<Rightarrow> real \<Rightarrow> real \<Rightarrow> Point" where
  "toLocal2 origin lon' lat' =
     (let ky = 111132.954 - 559.822 * cos (2 * lat' * pi / 180);
          kx = 111132.954 * cos (lat' * pi / 180);
          dy = (lat' - lat origin) * ky;
          dx = (lon' - lon origin) * kx
      in \<lparr>px = dx, py = dy\<rparr>)"

definition fromLocal2 :: "XCTaskPoint \<Rightarrow> real \<Rightarrow> real \<Rightarrow> LatLon" where
  "fromLocal2 origin x y =
     (let centerLat = lat origin;
          ky = 111132.954 - 559.822 * cos (2 * centerLat * pi / 180);
          kx = 111132.954 * cos (centerLat * pi / 180);
          dLat = y / ky;
          dLon = x / kx
      in \<lparr>geoLat = lat origin + dLat, geoLon = lon origin + dLon\<rparr>)"

subsection \<open>The relaxation\<close>

text \<open>
  An element of \<open>localPoints\<close>: the projected centre of a turnpoint, its radius and its
  altitude (\<open>tp.alt || 0\<close>).
\<close>

record LocalPoint =
  cx :: real
  cy :: real
  cradius :: real
  calt :: real

definition localPointsOf :: "XCTaskPoint list \<Rightarrow> LocalPoint list" where
  "localPointsOf points =
     map (\<lambda>p. let loc = toLocal (points ! 0) (lon p) (lat p)
              in \<lparr>cx = px loc, cy = py loc, cradius = radius p, calt = orNumber (alt p) 0\<rparr>)
       points"

text \<open>
  The branches of the loop body, each giving the new position of \<open>opt[i]\<close>. The branch
  for the first point (\<open>i === 0\<close>) and the one for the last point
  (\<open>i === opt.length - 1\<close>) are the same computation: \<open>other\<close> is the neighbour
  (\<open>opt[i + 1]\<close>, respectively \<open>opt[i - 1]\<close>) and \<open>current\<close> the position the point keeps
  when the guard \<open>len > 1e-6\<close> fails.
\<close>

definition boundaryToward :: "LocalPoint \<Rightarrow> Point \<Rightarrow> Point \<Rightarrow> Point" where
  "boundaryToward center other current =
     (let r = cradius center;
          dx = px other - cx center;
          dy = py other - cy center;
          len = sqrt (dx * dx + dy * dy)
      in if len > 1 / 1000000
         then \<lparr>px = cx center + (dx / len) * r, py = cy center + (dy / len) * r\<rparr>
         else current)"

text \<open>
  The interior branch (intermediate turnpoints), with \<open>A = opt[i - 1]\<close> and
  \<open>B = opt[i + 1]\<close>. \<open>closestOnSeg\<close> is its \<open>closestOnSeg\<close>: the projection of \<open>C\<close> onto the
  segment \<open>A\<close>-\<open>B\<close> with the parameter clamped to \<open>[0, 1]\<close>. It is computed only where
  \<open>lab2 \<ge> 1e-6\<close>.
\<close>

definition closestOnSeg :: "Point \<Rightarrow> Point \<Rightarrow> Point \<Rightarrow> Point" where
  "closestOnSeg A B C =
     (let lab2 = (px B - px A)\<^sup>2 + (py B - py A)\<^sup>2;
          t = ((px C - px A) * (px B - px A) + (py C - py A) * (py B - py A)) / lab2;
          tClamped = max 0 (min 1 t)
      in \<lparr>px = px A + tClamped * (px B - px A), py = py A + tClamped * (py B - py A)\<rparr>)"

definition interiorTarget :: "LocalPoint \<Rightarrow> Point \<Rightarrow> Point \<Rightarrow> Point" where
  "interiorTarget center A B =
     (let r = cradius center;
          C = \<lparr>px = cx center, py = cy center\<rparr>;
          lab2 = (px B - px A)\<^sup>2 + (py B - py A)\<^sup>2
      in if lab2 < 1 / 1000000 then \<lparr>px = px A, py = py A\<rparr>
         else
           (let Q = closestOnSeg A B C;
                distToSegSq = (px Q - px C)\<^sup>2 + (py Q - py C)\<^sup>2
            in if distToSegSq \<le> r * r then \<lparr>px = px Q, py = py Q\<rparr>
               else
                 (let dx = px Q - px C;
                      dy = py Q - py C;
                      len = sqrt (dx * dx + dy * dy)
                  in if len > 0
                     then \<lparr>px = px C + (dx / len) * r, py = py C + (dy / len) * r\<rparr>
                     else \<lparr>px = px C, py = py C\<rparr>)))"

text \<open>
  One execution of the body of the inner loop, for index \<open>i\<close>; it writes \<open>opt[i]\<close> and
  reads its neighbours as they are at that moment. The loop runs with at least two
  points, so \<open>opt[1]\<close> exists when \<open>i = 0\<close>.
\<close>

definition updatePoint :: "LocalPoint list \<Rightarrow> Point list \<Rightarrow> nat \<Rightarrow> Point list" where
  "updatePoint localPoints opt i =
     (let center = localPoints ! i in
      if i = 0 then opt[i := boundaryToward center (opt ! (i + 1)) (opt ! i)]
      else if i = length opt - 1 then opt[i := boundaryToward center (opt ! (i - 1)) (opt ! i)]
      else opt[i := interiorTarget center (opt ! (i - 1)) (opt ! (i + 1))])"

text \<open>The inner loop \<open>for (let i = 0; i < opt.length; i++)\<close>, one pass over the points.\<close>

definition relaxPass :: "LocalPoint list \<Rightarrow> Point list \<Rightarrow> Point list" where
  "relaxPass localPoints opt = fold (\<lambda>i acc. updatePoint localPoints acc i) [0..<length opt] opt"

definition ITERATIONS :: nat where
  "ITERATIONS = 50"

text \<open>The working buffer \<open>opt\<close>: the centres at first, then after the outer loop.\<close>

definition initialOpt :: "LocalPoint list \<Rightarrow> Point list" where
  "initialOpt localPoints = map (\<lambda>p. \<lparr>px = cx p, py = cy p\<rparr>) localPoints"

definition optimizedOpt :: "LocalPoint list \<Rightarrow> Point list" where
  "optimizedOpt localPoints = (relaxPass localPoints ^^ ITERATIONS) (initialOpt localPoints)"

subsection \<open>The result\<close>

text \<open>
  \<open>Cartesian3.fromDegrees\<close> belongs to Cesium, not to the repository: an element of the
  returned path is kept as the three arguments it is called with. The third argument is
  \<open>localPoints[idx].alt || 0\<close>, which on a real number is the number itself.
\<close>

record Degrees =
  degLon :: real
  degLat :: real
  height :: real

definition calculateOptimizedPath :: "XCTask \<Rightarrow> Degrees list" where
  "calculateOptimizedPath task =
     (if length (turnpoints task) < 2 then []
      else if startIndexOf task \<ge> endIndexOf task then []
      else
        (let points = relevantTPs task;
             localPoints = localPointsOf points;
             opt = optimizedOpt localPoints
         in map (\<lambda>(p, c). let geo = fromLocal (points ! 0) (px p) (py p)
                          in \<lparr>degLon = geoLon geo, degLat = geoLat geo, height = calt c\<rparr>)
              (zip opt localPoints)))"


text \<open>The distance of the local plane, in which the relaxation works.\<close>

definition planarDistance :: "Point \<Rightarrow> Point \<Rightarrow> real" where
  "planarDistance p q = sqrt ((px q - px p)\<^sup>2 + (py q - py p)\<^sup>2)"

section \<open>The optimizer over JavaScript's numbers\<close>

text \<open>
  The model above computes with real numbers, which have no NaN and no infinity. To
  follow non-finite values through \<open>calculateOptimizedPath\<close>, the same function is
  transcribed here over a number type with the three special values of an IEEE 754
  double. Finite arithmetic stays exact (no rounding, no overflow), and zero has no
  sign: a finite non-zero number divided by zero gives the infinity of the dividend's
  sign. The names are those of the real-number model with a \<open>J\<close> appended; \<open>x ** 2\<close> is
  written \<open>x * x\<close>.
\<close>

datatype jsnum = Num real | PosInf | NegInf | NaN

fun jsNeg :: "jsnum \<Rightarrow> jsnum" where
  "jsNeg (Num a) = Num (- a)"
| "jsNeg PosInf = NegInf"
| "jsNeg NegInf = PosInf"
| "jsNeg NaN = NaN"

fun jsAdd :: "jsnum \<Rightarrow> jsnum \<Rightarrow> jsnum" where
  "jsAdd (Num a) (Num b) = Num (a + b)"
| "jsAdd NaN b = NaN"
| "jsAdd a NaN = NaN"
| "jsAdd PosInf NegInf = NaN"
| "jsAdd NegInf PosInf = NaN"
| "jsAdd PosInf b = PosInf"
| "jsAdd a PosInf = PosInf"
| "jsAdd NegInf b = NegInf"
| "jsAdd a NegInf = NegInf"

text \<open>The sign of a number that is not NaN: -1, 0 or 1.\<close>

fun jsSign :: "jsnum \<Rightarrow> int" where
  "jsSign (Num a) = (if a < 0 then - 1 else if a = 0 then 0 else 1)"
| "jsSign PosInf = 1"
| "jsSign NegInf = - 1"
| "jsSign NaN = 0"

definition signedInf :: "int \<Rightarrow> jsnum" where
  "signedInf s = (if s = 0 then NaN else if s < 0 then NegInf else PosInf)"

fun jsMul :: "jsnum \<Rightarrow> jsnum \<Rightarrow> jsnum" where
  "jsMul (Num a) (Num b) = Num (a * b)"
| "jsMul NaN b = NaN"
| "jsMul a NaN = NaN"
| "jsMul a b = signedInf (jsSign a * jsSign b)"

fun jsDiv :: "jsnum \<Rightarrow> jsnum \<Rightarrow> jsnum" where
  "jsDiv (Num a) (Num b) = (if b = 0 then signedInf (jsSign (Num a)) else Num (a / b))"
| "jsDiv NaN b = NaN"
| "jsDiv a NaN = NaN"
| "jsDiv (Num a) b = Num 0"
| "jsDiv a (Num b) = signedInf (jsSign a * (if b < 0 then - 1 else 1))"
| "jsDiv a b = NaN"

fun jsSqrt :: "jsnum \<Rightarrow> jsnum" where
  "jsSqrt (Num a) = (if a < 0 then NaN else Num (sqrt a))"
| "jsSqrt PosInf = PosInf"
| "jsSqrt NegInf = NaN"
| "jsSqrt NaN = NaN"


text \<open>A comparison with NaN is false.\<close>

fun jsLt :: "jsnum \<Rightarrow> jsnum \<Rightarrow> bool" where
  "jsLt (Num a) (Num b) = (a < b)"
| "jsLt NaN b = False"
| "jsLt a NaN = False"
| "jsLt a NegInf = False"
| "jsLt PosInf b = False"
| "jsLt a b = True"

fun jsLe :: "jsnum \<Rightarrow> jsnum \<Rightarrow> bool" where
  "jsLe (Num a) (Num b) = (a \<le> b)"
| "jsLe NaN b = False"
| "jsLe a NaN = False"
| "jsLe NegInf b = True"
| "jsLe a PosInf = True"
| "jsLe a b = False"

text \<open>\<open>Math.max\<close> and \<open>Math.min\<close> return NaN when an argument is NaN.\<close>

definition jsMax :: "jsnum \<Rightarrow> jsnum \<Rightarrow> jsnum" where
  "jsMax a b = (if a = NaN \<or> b = NaN then NaN else if jsLe a b then b else a)"

definition jsMin :: "jsnum \<Rightarrow> jsnum \<Rightarrow> jsnum" where
  "jsMin a b = (if a = NaN \<or> b = NaN then NaN else if jsLe a b then a else b)"

text \<open>
  The operators of the source, so that the transcription reads as the source does:
  \<open>+\<close>, \<open>-\<close>, \<open>*\<close>, \<open>/\<close>, \<open><\<close> and \<open>\<le>\<close> on \<open>jsnum\<close> are the functions above.
\<close>

instantiation jsnum :: "{plus, minus, uminus, times, inverse, ord}"
begin

definition plus_jsnum :: "jsnum \<Rightarrow> jsnum \<Rightarrow> jsnum" where
  "plus_jsnum a b = jsAdd a b"

definition minus_jsnum :: "jsnum \<Rightarrow> jsnum \<Rightarrow> jsnum" where
  "minus_jsnum a b = jsAdd a (jsNeg b)"

definition uminus_jsnum :: "jsnum \<Rightarrow> jsnum" where
  "uminus_jsnum a = jsNeg a"

definition times_jsnum :: "jsnum \<Rightarrow> jsnum \<Rightarrow> jsnum" where
  "times_jsnum a b = jsMul a b"

definition divide_jsnum :: "jsnum \<Rightarrow> jsnum \<Rightarrow> jsnum" where
  "divide_jsnum a b = jsDiv a b"

definition inverse_jsnum :: "jsnum \<Rightarrow> jsnum" where
  "inverse_jsnum a = jsDiv (Num 1) a"

definition less_jsnum :: "jsnum \<Rightarrow> jsnum \<Rightarrow> bool" where
  "less_jsnum a b = jsLt a b"

definition less_eq_jsnum :: "jsnum \<Rightarrow> jsnum \<Rightarrow> bool" where
  "less_eq_jsnum a b = jsLe a b"

instance ..

end


record JsTaskPoint =
  latJ :: jsnum
  lonJ :: jsnum
  altJ :: "jsnum option"
  radiusJ :: jsnum
  typeJ :: TurnpointType

record JsTask =
  turnpointsJ :: "JsTaskPoint list"






















text \<open>The embedding of the real-number model's data into the JavaScript numbers.\<close>

definition taskPointJ :: "XCTaskPoint \<Rightarrow> JsTaskPoint" where
  "taskPointJ tp = \<lparr>latJ = Num (lat tp), lonJ = Num (lon tp), altJ = map_option Num (alt tp),
                    radiusJ = Num (radius tp), typeJ = type tp\<rparr>"

definition taskJ :: "XCTask \<Rightarrow> JsTask" where
  "taskJ task = \<lparr>turnpointsJ = map taskPointJ (turnpoints task)\<rparr>"




section \<open>Example inputs\<close>

text \<open>Tracks used to evaluate the metrics engine on concrete inputs.\<close>

definition threeFixTrack :: "Fix list" where
  "threeFixTrack =
     [\<lparr>timestamp = 0, latitude = 46, longitude = 8, gpsAltitude = Some 1000, pressureAltitude = None\<rparr>,
      \<lparr>timestamp = 1000, latitude = 46, longitude = 8, gpsAltitude = Some 1001, pressureAltitude = None\<rparr>,
      \<lparr>timestamp = 2000, latitude = 46, longitude = 8, gpsAltitude = Some 1002, pressureAltitude = None\<rparr>]"

definition baroOnlyTrack :: "Fix list" where
  "baroOnlyTrack =
     [\<lparr>timestamp = 0, latitude = 46, longitude = 8, gpsAltitude = None, pressureAltitude = Some 1000\<rparr>,
      \<lparr>timestamp = 20000, latitude = 46, longitude = 8, gpsAltitude = None, pressureAltitude = Some 1100\<rparr>]"

definition gpsTrack :: "Fix list" where
  "gpsTrack =
     [\<lparr>timestamp = 0, latitude = 46, longitude = 8, gpsAltitude = Some 1000, pressureAltitude = Some 990\<rparr>,
      \<lparr>timestamp = 20000, latitude = 46, longitude = 8, gpsAltitude = Some 1100, pressureAltitude = Some 1090\<rparr>]"

text \<open>
  Tasks and working buffers used to evaluate the optimizer on concrete inputs. The tasks
  lie on the equator with \<open>points[0]\<close> at longitude 0, where the scale factor \<open>kx\<close> is
  111132.954 metres per degree. \<open>onAxis\<close> builds a working buffer whose points lie on the
  x-axis of the local plane.
\<close>

definition onAxis :: "real list \<Rightarrow> Point list" where
  "onAxis xs = map (\<lambda>x. \<lparr>px = x, py = 0\<rparr>) xs"

definition takeoffTask :: XCTask where
  "takeoffTask = \<lparr>turnpoints =
     [\<lparr>lat = 46, lon = 8, alt = None, radius = 400, type = TAKEOFF\<rparr>,
      \<lparr>lat = 46.05, lon = 8.05, alt = None, radius = 1000, type = SSS\<rparr>,
      \<lparr>lat = 46, lon = 8.15, alt = None, radius = 1000, type = ESS\<rparr>]\<rparr>"

definition insideStartTask :: XCTask where
  "insideStartTask = \<lparr>turnpoints =
     [\<lparr>lat = 0, lon = 0, alt = None, radius = 1000, type = SSS\<rparr>,
      \<lparr>lat = 0, lon = 0.001, alt = None, radius = 400, type = ESS\<rparr>]\<rparr>"




definition outAndReturnTask :: XCTask where
  "outAndReturnTask = \<lparr>turnpoints =
     [\<lparr>lat = 0, lon = 0, alt = None, radius = 400, type = SSS\<rparr>,
      \<lparr>lat = 0, lon = 0.01, alt = None, radius = 100, type = TURNPOINT\<rparr>,
      \<lparr>lat = 0, lon = 0, alt = None, radius = 400, type = ESS\<rparr>]\<rparr>"

definition outAndReturnLocal :: "LocalPoint list" where
  "outAndReturnLocal =
     [\<lparr>cx = 0, cy = 0, cradius = 400, calt = 0\<rparr>,
      \<lparr>cx = 1111.32954, cy = 0, cradius = 100, calt = 0\<rparr>,
      \<lparr>cx = 0, cy = 0, cradius = 400, calt = 0\<rparr>]"

definition nearNeighboursLocal :: "LocalPoint list" where
  "nearNeighboursLocal =
     [\<lparr>cx = 0, cy = 0, cradius = 0, calt = 0\<rparr>,
      \<lparr>cx = 10, cy = 0, cradius = 1, calt = 0\<rparr>,
      \<lparr>cx = 0.0005, cy = 0, cradius = 0, calt = 0\<rparr>]"

definition chordLocal :: "LocalPoint list" where
  "chordLocal =
     [\<lparr>cx = 0, cy = 0, cradius = 0, calt = 0\<rparr>,
      \<lparr>cx = 5, cy = 1, cradius = 2, calt = 0\<rparr>,
      \<lparr>cx = 10, cy = 0, cradius = 0, calt = 0\<rparr>]"

definition equatorOrigin :: XCTaskPoint where
  "equatorOrigin = \<lparr>lat = 0, lon = 0, alt = None, radius = 1000, type = SSS\<rparr>"




section \<open>Properties of the flight metrics engine\<close>

subsection \<open>The binary search\<close>

text \<open>
  The search returns an index between \<open>lo - 1\<close> and \<open>hi\<close>; it returns \<open>lo - 1\<close> when no
  timestamp in the range is below the target; and on an ascending track everything up
  to the returned index is strictly below the target, everything after it is not.
\<close>

lemma searchLoop_bounds:
  "lo \<le> hi + 1 \<Longrightarrow> lo - 1 \<le> searchLoop fs target lo hi \<and> searchLoop fs target lo hi \<le> hi"
proof (induction fs target lo hi rule: searchLoop.induct)
  case (1 fs target lo hi)
  show ?case
  proof (cases "lo \<le> hi")
    case False
    with "1.prems" show ?thesis by (simp add: searchLoop.simps [of fs target lo hi])
  next
    case True
    let ?mid = "(lo + hi) div 2"
    from True have m: "lo \<le> ?mid" "?mid \<le> hi" by auto
    show ?thesis
    proof (cases "timestamp (fs ! nat ?mid) < target")
      case lt: True
      from "1.IH"(1) [OF True refl lt] m
      have "?mid + 1 - 1 \<le> searchLoop fs target (?mid + 1) hi \<and> searchLoop fs target (?mid + 1) hi \<le> hi"
        by simp
      with True lt m show ?thesis
        by (simp add: searchLoop.simps [of fs target lo hi] Let_def)
    next
      case ge: False
      from "1.IH"(2) [OF True refl ge] m
      have "lo - 1 \<le> searchLoop fs target lo (?mid - 1) \<and> searchLoop fs target lo (?mid - 1) \<le> ?mid - 1"
        by simp
      with True ge m show ?thesis
        by (simp add: searchLoop.simps [of fs target lo hi] Let_def)
    qed
  qed
qed

lemma searchLoop_none:
  "\<forall>k. lo \<le> k \<and> k \<le> hi \<longrightarrow> \<not> timestamp (fs ! nat k) < target \<Longrightarrow> lo \<le> hi + 1
   \<Longrightarrow> searchLoop fs target lo hi = lo - 1"
proof (induction fs target lo hi rule: searchLoop.induct)
  case (1 fs target lo hi)
  show ?case
  proof (cases "lo \<le> hi")
    case False
    with "1.prems" show ?thesis by (simp add: searchLoop.simps [of fs target lo hi])
  next
    case True
    let ?mid = "(lo + hi) div 2"
    from True have m: "lo \<le> ?mid" "?mid \<le> hi" by auto
    with "1.prems" have ge: "\<not> timestamp (fs ! nat ?mid) < target" by blast
    have "searchLoop fs target lo (?mid - 1) = lo - 1"
      using "1.IH"(2) [OF True refl ge] "1.prems" m by auto
    with True ge show ?thesis
      by (simp add: searchLoop.simps [of fs target lo hi] Let_def)
  qed
qed

lemma searchLoop_sorted:
  assumes "\<forall>j k. lo \<le> j \<and> j \<le> k \<and> k \<le> hi \<longrightarrow> timestamp (fs ! nat j) \<le> timestamp (fs ! nat k)"
      and "lo \<le> hi + 1"
  shows "(\<forall>k. lo \<le> k \<and> k \<le> searchLoop fs target lo hi \<longrightarrow> timestamp (fs ! nat k) < target) \<and>
         (\<forall>k. searchLoop fs target lo hi < k \<and> k \<le> hi \<longrightarrow> target \<le> timestamp (fs ! nat k))"
  using assms
proof (induction fs target lo hi rule: searchLoop.induct)
  case (1 fs target lo hi)
  show ?case
  proof (cases "lo \<le> hi")
    case False
    with "1.prems" show ?thesis by (simp add: searchLoop.simps [of fs target lo hi])
  next
    case True
    let ?mid = "(lo + hi) div 2"
    from True have m: "lo \<le> ?mid" "?mid \<le> hi" by auto
    show ?thesis
    proof (cases "timestamp (fs ! nat ?mid) < target")
      case lt: True
      have eq: "searchLoop fs target lo hi = searchLoop fs target (?mid + 1) hi"
        using True lt by (simp add: searchLoop.simps [of fs target lo hi] Let_def)
      have ih: "(\<forall>k. ?mid + 1 \<le> k \<and> k \<le> searchLoop fs target (?mid + 1) hi \<longrightarrow> timestamp (fs ! nat k) < target) \<and>
         (\<forall>k. searchLoop fs target (?mid + 1) hi < k \<and> k \<le> hi \<longrightarrow> target \<le> timestamp (fs ! nat k))"
        using "1.IH"(1) [OF True refl lt] "1.prems" m by auto
      have low: "\<forall>k. lo \<le> k \<and> k \<le> ?mid \<longrightarrow> timestamp (fs ! nat k) < target"
      proof (intro allI impI)
        fix k assume "lo \<le> k \<and> k \<le> ?mid"
        with "1.prems"(1) m have "timestamp (fs ! nat k) \<le> timestamp (fs ! nat ?mid)" by blast
        with lt show "timestamp (fs ! nat k) < target" by simp
      qed
      show ?thesis unfolding eq using ih low
        by (metis add.commute int_one_le_iff_zero_less linorder_not_less zless_imp_add1_zle zero_less_one not_le_imp_less order_less_le)
    next
      case ge: False
      have eq: "searchLoop fs target lo hi = searchLoop fs target lo (?mid - 1)"
        using True ge by (simp add: searchLoop.simps [of fs target lo hi] Let_def)
      have ih: "(\<forall>k. lo \<le> k \<and> k \<le> searchLoop fs target lo (?mid - 1) \<longrightarrow> timestamp (fs ! nat k) < target) \<and>
         (\<forall>k. searchLoop fs target lo (?mid - 1) < k \<and> k \<le> ?mid - 1 \<longrightarrow> target \<le> timestamp (fs ! nat k))"
        using "1.IH"(2) [OF True refl ge] "1.prems" m by auto
      have high: "\<forall>k. ?mid \<le> k \<and> k \<le> hi \<longrightarrow> target \<le> timestamp (fs ! nat k)"
      proof (intro allI impI)
        fix k assume "?mid \<le> k \<and> k \<le> hi"
        with "1.prems"(1) m have "timestamp (fs ! nat ?mid) \<le> timestamp (fs ! nat k)" by blast
        with ge show "target \<le> timestamp (fs ! nat k)" by simp
      qed
      show ?thesis unfolding eq using ih high
        by (metis linorder_not_less zle_diff1_eq)
    qed
  qed
qed

lemma currentIndexOf_bounds:
  "- 1 \<le> currentIndexOf fs trackTime \<and> currentIndexOf fs trackTime < int (length fs)"
  using searchLoop_bounds [of 0 "int (length fs) - 1" fs trackTime]
  by (simp add: currentIndexOf_def)

lemma currentIndexOf_sorted:
  assumes "sorted (map timestamp fs)"
  shows "(\<forall>k. 0 \<le> k \<and> k \<le> currentIndexOf fs trackTime \<longrightarrow> timestamp (fs ! nat k) < trackTime) \<and>
         (\<forall>k. currentIndexOf fs trackTime < k \<and> k < int (length fs) \<longrightarrow> trackTime \<le> timestamp (fs ! nat k))"
proof -
  have mono: "\<forall>j k. 0 \<le> j \<and> j \<le> k \<and> k \<le> int (length fs) - 1 \<longrightarrow>
                timestamp (fs ! nat j) \<le> timestamp (fs ! nat k)"
  proof (intro allI impI)
    fix j k :: int
    assume h: "0 \<le> j \<and> j \<le> k \<and> k \<le> int (length fs) - 1"
    then have lt: "nat j \<le> nat k" "nat k < length fs" by auto
    then have "map timestamp fs ! nat j \<le> map timestamp fs ! nat k"
      using sorted_nth_mono [OF assms, of "nat j" "nat k"] by simp
    with lt show "timestamp (fs ! nat j) \<le> timestamp (fs ! nat k)"
      by simp
  qed
  from searchLoop_sorted [OF mono, of trackTime] show ?thesis
    by (simp add: currentIndexOf_def)
qed

text \<open>
  Claim C7: for a non-empty time-ascending track and a query instant \<open>T\<close> the search
  selects the latest fix with timestamp \<open>\<le> T\<close>, so a query at the exact timestamp of a
  fix selects that fix. The loop compares with \<open><\<close>, so by \<open>currentIndexOf_sorted\<close> it
  selects the latest fix strictly before \<open>T\<close>. On the track with fixes at 0, 1000 and
  2000 ms, the query at 1000 (the timestamp of fix 1) selects fix 0, and the query at 0
  (the timestamp of fix 0) selects no fix, although the source's comment on the
  assignment reads "Fix just before or at current time".
\<close>

theorem exact_timestamp_selects_previous_fix:
  "timestamp (threeFixTrack ! 1) = 1000 \<and> currentIndexOf threeFixTrack 1000 = 0 \<and>
   timestamp (threeFixTrack ! 0) = 0 \<and> currentIndexOf threeFixTrack 0 = - 1"
  by (simp add: threeFixTrack_def currentIndexOf_def searchLoop.simps)

subsection \<open>Vertical speed\<close>

text \<open>
  Counterexample to claim C8 as stated: on a track whose fixes carry only a barometric
  altitude (1000 m, then 1100 m twenty seconds later) the reported vertical speed is 0,
  while the difference of effective altitudes divided by the elapsed time is 5 m/s.
\<close>

theorem vario_ignores_pressureAltitude:
  "currentIndexOf baroOnlyTrack 20001 = 1 \<and> pastIndexOf baroOnlyTrack 20001 = 0 \<and>
   map_option vario (trackStats (\<lambda>p q. 0) (\<lambda>lon lat. None) baroOnlyTrack 20001) = Some 0 \<and>
   (effectiveAltitude (baroOnlyTrack ! 1) - effectiveAltitude (baroOnlyTrack ! 0)) / 20 = 5"
  by (simp add: baroOnlyTrack_def trackStats_def pastIndexOf_def currentIndexOf_def
      searchLoop.simps orNumber_def effectiveAltitude_def Let_def)

text \<open>
  Claim C8, amended: whenever a sample is reported, its vertical speed is the difference
  of \<open>gpsAltitude || 0\<close> between the current fix and the past fix, divided by the elapsed
  time in seconds, which is positive; the barometric altitude does not enter.
\<close>

theorem vario_from_gpsAltitude:
  assumes "trackStats distance getHeight fs trackTime = Some s"
  shows "vario s =
           (orNumber (gpsAltitude (fs ! nat (currentIndexOf fs trackTime))) 0 -
            orNumber (gpsAltitude (fs ! nat (pastIndexOf fs trackTime))) 0) /
           (real_of_int (timestamp (fs ! nat (currentIndexOf fs trackTime)) -
                         timestamp (fs ! nat (pastIndexOf fs trackTime))) / 1000)
         \<and> timestamp (fs ! nat (pastIndexOf fs trackTime)) < timestamp (fs ! nat (currentIndexOf fs trackTime))"
  using assms by (auto simp: trackStats_def Let_def split: if_splits)

theorem vario_from_gpsAltitude_witness:
  "trackStats (\<lambda>p q. 0) (\<lambda>lon lat. None) gpsTrack 20001 = Some \<lparr>speed = 0, vario = 5, agl = 0\<rparr> \<and>
   vario \<lparr>speed = 0, vario = 5, agl = 0\<rparr> =
     (orNumber (gpsAltitude (gpsTrack ! nat (currentIndexOf gpsTrack 20001))) 0 -
      orNumber (gpsAltitude (gpsTrack ! nat (pastIndexOf gpsTrack 20001))) 0) /
     (real_of_int (timestamp (gpsTrack ! nat (currentIndexOf gpsTrack 20001)) -
                   timestamp (gpsTrack ! nat (pastIndexOf gpsTrack 20001))) / 1000)"
proof -
  have h: "trackStats (\<lambda>p q. 0) (\<lambda>lon lat. None) gpsTrack 20001 = Some \<lparr>speed = 0, vario = 5, agl = 0\<rparr>"
    by (simp add: gpsTrack_def trackStats_def pastIndexOf_def currentIndexOf_def
        searchLoop.simps orNumber_def Let_def)
  from vario_from_gpsAltitude [OF h] h show ?thesis by simp
qed

subsection \<open>No sample without a full window\<close>

text \<open>
  Claim C9: if no fix has a timestamp at or before \<open>T - 15000\<close>, or if the elapsed time
  between the two selected fixes is not positive, no sample is reported. The first part
  needs no assumption on the order of the fixes.
\<close>

theorem no_sample_without_window:
  assumes "(\<forall>f \<in> set fs. trackTime - 15000 < timestamp f) \<or>
           timestamp (fs ! nat (currentIndexOf fs trackTime)) \<le>
             timestamp (fs ! nat (pastIndexOf fs trackTime))"
  shows "trackStats distance getHeight fs trackTime = None"
  using assms
proof
  assume none: "\<forall>f \<in> set fs. trackTime - 15000 < timestamp f"
  let ?cur = "currentIndexOf fs trackTime"
  from currentIndexOf_bounds [of fs trackTime] have b: "- 1 \<le> ?cur" "?cur < int (length fs)" by auto
  have "\<forall>k. 0 \<le> k \<and> k \<le> ?cur \<longrightarrow> \<not> timestamp (fs ! nat k) < trackTime - 15000"
  proof (intro allI impI)
    fix k assume "0 \<le> k \<and> k \<le> ?cur"
    with b have "nat k < length fs" by auto
    then have "fs ! nat k \<in> set fs" by simp
    with none show "\<not> timestamp (fs ! nat k) < trackTime - 15000" by fastforce
  qed
  from searchLoop_none [OF this] b have "pastIndexOf fs trackTime = - 1"
    by (simp add: pastIndexOf_def)
  then show ?thesis by (simp add: trackStats_def Let_def)
next
  assume "timestamp (fs ! nat (currentIndexOf fs trackTime)) \<le>
             timestamp (fs ! nat (pastIndexOf fs trackTime))"
  then show ?thesis by (simp add: trackStats_def Let_def)
qed

theorem no_sample_without_window_witness:
  "trackStats (\<lambda>p q. 0) (\<lambda>lon lat. Some 0) gpsTrack 10000 = None"
proof -
  have h: "\<forall>f \<in> set gpsTrack. 10000 - 15000 < timestamp f" by (simp add: gpsTrack_def)
  from no_sample_without_window [OF disjI1, OF h] show ?thesis .
qed

subsection \<open>Height above ground\<close>

text \<open>
  Counterexample to claim C10 as stated: with a terrain query that answers "unknown"
  everywhere, the sample is reported with the number 0 as its AGL (the fix is at 1100 m).
\<close>

theorem unknown_terrain_reports_zero_agl:
  "map_option agl (trackStats (\<lambda>p q. 0) (\<lambda>lon lat. None) gpsTrack 20001) = Some 0"
  by (simp add: gpsTrack_def trackStats_def pastIndexOf_def currentIndexOf_def
        searchLoop.simps orNumber_def Let_def)

text \<open>
  Claim C10, amended: whenever a sample is reported, its AGL is 0 if the terrain height at
  the current fix is unknown, and otherwise \<open>gpsAltitude || pressureAltitude || 0\<close> of the
  current fix minus the terrain height. The raw altitude is never reported in its place.
\<close>

theorem agl_of_sample:
  assumes "trackStats distance getHeight fs trackTime = Some s"
  shows "agl s =
           (let currentFix = fs ! nat (currentIndexOf fs trackTime) in
            case getHeight (longitude currentFix) (latitude currentFix) of
              None \<Rightarrow> 0
            | Some globeHeight \<Rightarrow>
                orNumber (orNullable (gpsAltitude currentFix) (pressureAltitude currentFix)) 0
                  - globeHeight)"
  using assms by (auto simp: trackStats_def Let_def split: if_splits)

theorem agl_of_sample_witness:
  "trackStats (\<lambda>p q. 0) (\<lambda>lon lat. Some 300) gpsTrack 20001 = Some \<lparr>speed = 0, vario = 5, agl = 800\<rparr> \<and>
   agl \<lparr>speed = 0, vario = 5, agl = 800\<rparr> =
     (let currentFix = gpsTrack ! nat (currentIndexOf gpsTrack 20001) in
      case (\<lambda>lon lat. Some 300) (longitude currentFix) (latitude currentFix) of
        None \<Rightarrow> 0
      | Some globeHeight \<Rightarrow>
          orNumber (orNullable (gpsAltitude currentFix) (pressureAltitude currentFix)) 0
            - globeHeight)"
proof -
  have h: "trackStats (\<lambda>p q. 0) (\<lambda>lon lat. Some 300) gpsTrack 20001 = Some \<lparr>speed = 0, vario = 5, agl = 800\<rparr>"
    by (simp add: gpsTrack_def trackStats_def pastIndexOf_def currentIndexOf_def
        searchLoop.simps orNumber_def orNullable_def Let_def)
  from agl_of_sample [OF h] h show ?thesis by simp
qed

section \<open>Properties of the task path optimizer\<close>

subsection \<open>The number of returned points\<close>

lemma length_updatePoint [simp]: "length (updatePoint localPoints opt i) = length opt"
  by (simp add: updatePoint_def Let_def)

lemma length_fold_updatePoint:
  "length (fold (\<lambda>i acc. updatePoint localPoints acc i) is opt) = length opt"
  by (induction "is" arbitrary: opt) simp_all

lemma length_relaxPass [simp]: "length (relaxPass localPoints opt) = length opt"
  by (simp add: relaxPass_def length_fold_updatePoint)

lemma length_relaxPass_funpow [simp]: "length ((relaxPass localPoints ^^ n) opt) = length opt"
  by (induction n) simp_all

lemma length_optimizedOpt [simp]: "length (optimizedOpt localPoints) = length localPoints"
  by (simp add: optimizedOpt_def initialOpt_def)

lemma findIndex_bounds: "- 1 \<le> findIndex P es \<and> findIndex P es < int (length es)"
  by (induction es) (auto simp: Let_def)

lemma startIndexOf_bounds: "0 \<le> startIndexOf task"
  using findIndex_bounds [of "\<lambda>tp. type tp = SSS" "turnpoints task"]
  by (auto simp: startIndexOf_def Let_def)

lemma endIndexOf_bounds: "endIndexOf task < int (length (turnpoints task))"
  using findIndex_bounds [of "\<lambda>tp. type tp = ESS" "turnpoints task"]
    findIndex_bounds [of "\<lambda>tp. type tp = GOAL" "turnpoints task"]
  by (auto simp: endIndexOf_def Let_def)

lemma length_relevantTPs:
  "startIndexOf task < endIndexOf task \<Longrightarrow>
   int (length (relevantTPs task)) = endIndexOf task - startIndexOf task + 1"
  using startIndexOf_bounds [of task] endIndexOf_bounds [of task]
  by (simp add: relevantTPs_def)

lemma length_calculateOptimizedPath:
  "length (calculateOptimizedPath task) =
     (if length (turnpoints task) < 2 \<or> endIndexOf task \<le> startIndexOf task then 0
      else nat (endIndexOf task - startIndexOf task + 1))"
  using length_relevantTPs [of task]
  by (auto simp: calculateOptimizedPath_def Let_def localPointsOf_def)

text \<open>
  Counterexample to claim C5 as stated: the task TAKEOFF, SSS, ESS has three turnpoints, is
  accepted (the start index 1 is below the end index 2), and the returned path has two
  points: the take-off before the SSS turnpoint gets none.
\<close>

theorem takeoff_is_not_in_the_path:
  "length (turnpoints takeoffTask) = 3 \<and> startIndexOf takeoffTask < endIndexOf takeoffTask \<and>
   length (calculateOptimizedPath takeoffTask) = 2"
  by (simp add: length_calculateOptimizedPath takeoffTask_def startIndexOf_def endIndexOf_def)

text \<open>
  Claim C5, amended: for every task the optimizer accepts (at least two turnpoints, start
  index below end index) the returned path has exactly one point per turnpoint from the
  start index to the end index inclusive. That is one point per turnpoint of the task
  exactly when the start index is 0 and the end index is the last index; in particular
  an accepted task of two turnpoints yields exactly two points.
\<close>

theorem one_point_per_relevant_turnpoint:
  assumes "2 \<le> length (turnpoints task)" and "startIndexOf task < endIndexOf task"
  shows "int (length (calculateOptimizedPath task)) = endIndexOf task - startIndexOf task + 1 \<and>
         (length (calculateOptimizedPath task) = length (turnpoints task) \<longleftrightarrow>
            startIndexOf task = 0 \<and> endIndexOf task = int (length (turnpoints task)) - 1) \<and>
         (length (turnpoints task) = 2 \<longrightarrow> length (calculateOptimizedPath task) = 2)"
  using assms startIndexOf_bounds [of task] endIndexOf_bounds [of task]
  by (auto simp: length_calculateOptimizedPath)

theorem one_point_per_relevant_turnpoint_witness:
  "length (calculateOptimizedPath insideStartTask) = 2"
proof -
  have a: "2 \<le> length (turnpoints insideStartTask)" by (simp add: insideStartTask_def)
  have b: "startIndexOf insideStartTask < endIndexOf insideStartTask"
    by (simp add: insideStartTask_def startIndexOf_def endIndexOf_def)
  from one_point_per_relevant_turnpoint [OF a b] b show ?thesis 
    by (simp add: insideStartTask_def startIndexOf_def endIndexOf_def)
qed

subsection \<open>The projection and its inverse\<close>

text \<open>
  With the scale factors of the first \<open>calculateOptimizedPath\<close>, \<open>fromLocal\<close> undoes
  \<open>toLocal\<close> exactly wherever \<open>kx\<close> is not zero, that is, away from the poles.
\<close>

lemma kyAt_pos: "0 < kyAt centerLat"
proof -
  have gen: "0 < 111132.954 - 559.822 * c" if "c \<le> 1" for c :: real
    using that by (simp; linarith)
  show ?thesis unfolding kyAt_def by (rule gen) (rule cos_le_one)
qed

lemma fromLocal_toLocal:
  assumes "cos (lat origin * pi / 180) \<noteq> 0"
  shows "fromLocal origin (px (toLocal origin lo la)) (py (toLocal origin lo la))
           = \<lparr>geoLat = la, geoLon = lo\<rparr>"
proof -
  have "kxAt (lat origin) \<noteq> 0" using assms by (simp add: kxAt_def)
  moreover have "kyAt (lat origin) \<noteq> 0" using kyAt_pos [of "lat origin"] by simp
  ultimately show ?thesis by (simp add: fromLocal_def toLocal_def Let_def)
qed

lemma one_minus_cos_lower:
  assumes "0 < x" "x \<le> pi / 3"
  shows "x\<^sup>2 / 4 \<le> 1 - cos x"
proof -
  from Maclaurin_cos_expansion2 [OF assms(1), of 2]
  obtain t where t: "0 < t" "t < x"
    and eq: "cos x = (\<Sum>m<2. cos_coeff m * x ^ m) + (cos (t + 1 / 2 * real 2 * pi) / fact 2) * x ^ 2"
    by auto
  have s: "(\<Sum>m<2. cos_coeff m * x ^ m) = 1"
    by (simp add: lessThan_Suc numeral_2_eq_2 cos_coeff_def)
  have "cos (t + 1 / 2 * real 2 * pi) = - cos t" by simp
  with eq s have c: "cos x = 1 - cos t * x\<^sup>2 / 2" by (simp add: fact_numeral)
  have "cos (pi / 3) \<le> cos t"
    using t assms by (intro cos_monotone_0_pi_le) (auto intro: order_trans)
  then have "1 / 2 \<le> cos t" by (simp add: cos_60)
  then have "1 / 2 * x\<^sup>2 \<le> cos t * x\<^sup>2" by (intro mult_right_mono) simp_all
  with c show ?thesis by simp
qed

lemma roundTrip2_lon:
  "geoLon (fromLocal2 equatorOrigin (px (toLocal2 equatorOrigin 0.5 0.5)) (py (toLocal2 equatorOrigin 0.5 0.5)))
     < 0.5 - 3 / 1000000"
proof -
  let ?x = "pi / 360"
  have x: "0 < ?x" "?x \<le> pi / 3" by simp_all
  have "1 / 180 \<le> ?x" using pi_ge_two by simp
  then have "(1 / 180)\<^sup>2 \<le> ?x\<^sup>2" by (intro power_mono) simp_all
  with one_minus_cos_lower [OF x] have "(1 / 180)\<^sup>2 / 4 \<le> 1 - cos ?x" by linarith
  then have c: "cos ?x \<le> 1 - 1 / 129600" by (simp add: power2_eq_square)
  have "geoLon (fromLocal2 equatorOrigin (px (toLocal2 equatorOrigin 0.5 0.5)) (py (toLocal2 equatorOrigin 0.5 0.5)))
          = 0.5 * cos (0.5 * pi / 180)"
    by (simp add: fromLocal2_def toLocal2_def equatorOrigin_def Let_def)
  also have "0.5 * pi / 180 = ?x" by simp
  finally show ?thesis using c by simp
qed

lemma roundTrip2_lat:
  "0.5 < geoLat (fromLocal2 equatorOrigin (px (toLocal2 equatorOrigin 0.5 0.5)) (py (toLocal2 equatorOrigin 0.5 0.5)))"
proof -
  have "cos (pi / 180) < cos 0" by (rule cos_monotone_0_pi) simp_all
  then have c: "cos (pi / 180) < 1" by simp
  have gen: "0.5 < 0.5 * (111132.954 - 559.822 * c) / (111132.954 - 559.822)" if "c < 1" for c :: real
    using that by (simp add: field_simps)
  have "geoLat (fromLocal2 equatorOrigin (px (toLocal2 equatorOrigin 0.5 0.5)) (py (toLocal2 equatorOrigin 0.5 0.5)))
          = 0.5 * (111132.954 - 559.822 * cos (2 * 0.5 * pi / 180)) / (111132.954 - 559.822)"
    by (simp add: fromLocal2_def toLocal2_def equatorOrigin_def Let_def)
  also have "2 * 0.5 * pi / 180 = pi / 180" by simp
  finally show ?thesis using gen [OF c] by simp
qed

text \<open>
  Claim C3: \<open>fromLocal\<close> after \<open>toLocal\<close> reproduces every point within about 100 km of the
  origin to well under a millimetre, the scale factors being computed once from the
  latitude of the origin. The first \<open>calculateOptimizedPath\<close> does so (lemma
  \<open>fromLocal_toLocal\<close>). The second scales \<open>toLocal\<close> by the latitude of the converted
  point and \<open>fromLocal\<close> by the latitude of the origin: with the origin at latitude 0,
  longitude 0, the point at latitude 0.5, longitude 0.5 (about 78 km away) comes back with
  a longitude more than 0.000003 degrees, a third of a metre, too small, and with a
  latitude that is too large.
\<close>

theorem roundTrip2_misses_by_a_third_of_a_metre:
  "geoLon (fromLocal2 equatorOrigin (px (toLocal2 equatorOrigin 0.5 0.5))
             (py (toLocal2 equatorOrigin 0.5 0.5))) < 0.5 - 3 / 1000000 \<and>
   0.5 < geoLat (fromLocal2 equatorOrigin (px (toLocal2 equatorOrigin 0.5 0.5))
                   (py (toLocal2 equatorOrigin 0.5 0.5)))"
  using roundTrip2_lon roundTrip2_lat by (rule conjI)

subsection \<open>The update of an interior point\<close>

lemma unit_scaled_length:
  fixes dx dy r :: real
  assumes "0 < sqrt (dx * dx + dy * dy)"
  shows "sqrt ((dx / sqrt (dx * dx + dy * dy) * r)\<^sup>2 + (dy / sqrt (dx * dx + dy * dy) * r)\<^sup>2) = \<bar>r\<bar>"
proof -
  let ?len = "sqrt (dx * dx + dy * dy)"
  have nn: "0 \<le> dx * dx + dy * dy" by simp
  have sq: "?len\<^sup>2 = dx * dx + dy * dy" using nn by simp
  have gen: "(dx / L * r)\<^sup>2 + (dy / L * r)\<^sup>2 = r\<^sup>2 * ((dx * dx + dy * dy) / L\<^sup>2)" for L :: real
    by (simp add: power2_eq_square power_divide add_divide_distrib algebra_simps)
  have "(dx / ?len * r)\<^sup>2 + (dy / ?len * r)\<^sup>2 = r\<^sup>2 * ((dx * dx + dy * dy) / ?len\<^sup>2)"
    by (rule gen)
  also have "\<dots> = r\<^sup>2"
  proof -
    from assms have "0 < dx * dx + dy * dy" by simp
    then have "dx * dx + dy * dy \<noteq> 0" by linarith
    then have "(dx * dx + dy * dy) / ?len\<^sup>2 = 1" unfolding sq by (rule divide_self)
    then show ?thesis by (simp only: mult_1_right)
  qed
  finally show ?thesis by simp
qed

lemma planarDistance_le_iff:
  "0 \<le> r \<Longrightarrow> planarDistance p q \<le> r \<longleftrightarrow> (px q - px p)\<^sup>2 + (py q - py p)\<^sup>2 \<le> r * r"
proof -
  assume r: "0 \<le> r"
  have "planarDistance p q \<le> r \<longleftrightarrow> sqrt ((px q - px p)\<^sup>2 + (py q - py p)\<^sup>2) \<le> sqrt (r * r)"
    using r by (simp add: planarDistance_def)
  also have "\<dots> \<longleftrightarrow> (px q - px p)\<^sup>2 + (py q - py p)\<^sup>2 \<le> r * r"
    by (rule real_sqrt_le_iff)
  finally show ?thesis .
qed

lemma closestOnSeg_on_segment:
  "\<exists>t. 0 \<le> t \<and> t \<le> 1 \<and>
       closestOnSeg A B C = \<lparr>px = px A + t * (px B - px A), py = py A + t * (py B - py A)\<rparr>"
  unfolding closestOnSeg_def Let_def
  by (rule exI [of _ "max 0 (min 1 (((px C - px A) * (px B - px A) + (py C - py A) * (py B - py A)) /
         ((px B - px A)\<^sup>2 + (py B - py A)\<^sup>2)))"]) simp

lemma closestOnSeg_closest:
  assumes nd: "0 < (px B - px A)\<^sup>2 + (py B - py A)\<^sup>2"
      and s: "0 \<le> s" "s \<le> 1"
  shows "planarDistance C (closestOnSeg A B C)
           \<le> planarDistance C \<lparr>px = px A + s * (px B - px A), py = py A + s * (py B - py A)\<rparr>"
proof -
  define ux uy where "ux = px B - px A" and "uy = py B - py A"
  define lab2 where "lab2 = ux\<^sup>2 + uy\<^sup>2"
  define w where "w = (px C - px A) * ux + (py C - py A) * uy"
  define t where "t = w / lab2"
  define tc where "tc = max 0 (min 1 t)"
  define f where "f = (\<lambda>z. (px A + z * ux - px C)\<^sup>2 + (py A + z * uy - py C)\<^sup>2)"
  define k where "k = (px A - px C)\<^sup>2 + (py A - py C)\<^sup>2"
  have lab2: "0 < lab2" using nd by (simp add: lab2_def ux_def uy_def)
  have w: "w = t * lab2" using lab2 by (simp add: t_def)
  have expand: "f z = z\<^sup>2 * lab2 - 2 * z * w + k" for z
    by (simp add: f_def lab2_def w_def k_def power2_eq_square algebra_simps)
  have diff: "f s - f tc = lab2 * ((s - tc) * (s + tc - 2 * t))"
    by (simp add: expand w power2_eq_square algebra_simps)
  have "0 \<le> (s - tc) * (s + tc - 2 * t)"
  proof -
    consider "t < 0" | "1 < t" | "0 \<le> t" "t \<le> 1" by linarith
    then show ?thesis
    proof cases
      case 1
      then have "tc = 0" by (simp add: tc_def)
      moreover have "0 \<le> s * (s - 2 * t)" using 1 s by (intro mult_nonneg_nonneg) auto
      ultimately show ?thesis by simp
    next
      case 2
      then have "tc = 1" by (simp add: tc_def)
      moreover have "0 \<le> (s - 1) * (s + 1 - 2 * t)" using 2 s by (intro mult_nonpos_nonpos) auto
      ultimately show ?thesis by simp
    next
      case 3
      then have "tc = t" by (simp add: tc_def)
      moreover have "0 \<le> (s - t) * (s - t)" by simp
      ultimately show ?thesis by (simp add: algebra_simps)
    qed
  qed
  with lab2 have "0 \<le> lab2 * ((s - tc) * (s + tc - 2 * t))" by (simp add: mult_nonneg_nonneg)
  then have "0 \<le> f s - f tc" unfolding diff .
  then have le: "f tc \<le> f s" by simp
  have Q: "closestOnSeg A B C = \<lparr>px = px A + tc * ux, py = py A + tc * uy\<rparr>"
    by (simp add: closestOnSeg_def Let_def tc_def t_def w_def lab2_def ux_def uy_def)
  have "planarDistance C (closestOnSeg A B C) = sqrt (f tc)"
    by (simp add: Q planarDistance_def f_def)
  moreover have "planarDistance C \<lparr>px = px A + s * (px B - px A), py = py A + s * (py B - py A)\<rparr> = sqrt (f s)"
    by (simp add: planarDistance_def f_def ux_def uy_def)
  ultimately show ?thesis using le by simp
qed

lemma interiorTarget_nondegenerate:
  assumes "1 / 1000000 \<le> (px B - px A)\<^sup>2 + (py B - py A)\<^sup>2"
      and "0 \<le> cradius center"
      and "C = \<lparr>px = cx center, py = cy center\<rparr>"
      and "Q = closestOnSeg A B C"
  shows "(planarDistance C Q \<le> cradius center \<longrightarrow> interiorTarget center A B = Q) \<and>
         (cradius center < planarDistance C Q \<longrightarrow>
            planarDistance C (interiorTarget center A B) = cradius center)"
proof -
  let ?r = "cradius center"
  let ?d2 = "(px Q - px C)\<^sup>2 + (py Q - py C)\<^sup>2"
  have nd: "\<not> (px B - px A)\<^sup>2 + (py B - py A)\<^sup>2 < 1 / 1000000" using assms(1) by simp
  have iff: "planarDistance C Q \<le> ?r \<longleftrightarrow> ?d2 \<le> ?r * ?r"
    using planarDistance_le_iff [OF assms(2)] by simp
  have inside: "interiorTarget center A B = Q" if "?d2 \<le> ?r * ?r"
    using that nd assms(3,4) by (simp add: interiorTarget_def Let_def)
  have outside: "planarDistance C (interiorTarget center A B) = ?r" if out: "\<not> ?d2 \<le> ?r * ?r"
  proof -
    let ?dx = "px Q - px C" and ?dy = "py Q - py C"
    have "0 \<le> ?r * ?r" by simp
    with out have "0 < ?d2" by linarith
    then have pos: "0 < sqrt (?dx * ?dx + ?dy * ?dy)" by (simp add: power2_eq_square)
    have tgt: "interiorTarget center A B =
            \<lparr>px = px C + (?dx / sqrt (?dx * ?dx + ?dy * ?dy)) * ?r,
             py = py C + (?dy / sqrt (?dx * ?dx + ?dy * ?dy)) * ?r\<rparr>"
      using out nd pos assms(3,4) by (simp add: interiorTarget_def Let_def)
    show ?thesis
      unfolding tgt planarDistance_def using unit_scaled_length [OF pos, of ?r] assms(2)
      by simp
  qed
  from iff inside outside show ?thesis by auto
qed

lemma planarDistance_horizontal:
  "py p = py q \<Longrightarrow> planarDistance p q = \<bar>px q - px p\<bar>"
  by (simp add: planarDistance_def)

lemma planarDistance_vertical:
  "px p = px q \<Longrightarrow> planarDistance p q = \<bar>py q - py p\<bar>"
  by (simp add: planarDistance_def)

lemma boundaryToward_horizontal:
  assumes "py other = 0" "cy center = 0"
  shows "boundaryToward center other current =
           (if \<bar>px other - cx center\<bar> > 1 / 1000000
            then \<lparr>px = cx center + ((px other - cx center) / \<bar>px other - cx center\<bar>) * cradius center,
                  py = 0\<rparr>
            else current)"
  using assms by (simp add: boundaryToward_def Let_def)

lemma interiorTarget_horizontal:
  assumes "py A = 0" "py B = 0" "cy center = 0"
  shows "interiorTarget center A B =
           (if (px B - px A)\<^sup>2 < 1 / 1000000 then \<lparr>px = px A, py = 0\<rparr>
            else
              (let t = ((cx center - px A) * (px B - px A)) / (px B - px A)\<^sup>2;
                   qx = px A + max 0 (min 1 t) * (px B - px A)
               in if (qx - cx center)\<^sup>2 \<le> cradius center * cradius center then \<lparr>px = qx, py = 0\<rparr>
                  else if \<bar>qx - cx center\<bar> > 0
                       then \<lparr>px = cx center + ((qx - cx center) / \<bar>qx - cx center\<bar>) * cradius center,
                             py = 0\<rparr>
                       else \<lparr>px = cx center, py = 0\<rparr>))"
  using assms by (simp add: interiorTarget_def closestOnSeg_def Let_def)

text \<open>
  Counterexample to claim C1 as stated: the neighbours \<open>A = (0, 0)\<close> and
  \<open>B = (0.0005, 0)\<close> are half a millimetre apart, the disk has centre \<open>(10, 0)\<close> and
  radius 1. The closest point of the segment to the centre is \<open>B\<close>, at distance 9.9995,
  so the segment passes outside the disk; the update puts the point at \<open>A\<close>, at distance
  10 from the centre and not on the boundary circle.
\<close>

theorem nearby_neighbours_counterexample:
  "updatePoint nearNeighboursLocal (onAxis [0, 10, 0.0005]) 1 ! 1 = \<lparr>px = 0, py = 0\<rparr> \<and>
   closestOnSeg \<lparr>px = 0, py = 0\<rparr> \<lparr>px = 0.0005, py = 0\<rparr> \<lparr>px = 10, py = 0\<rparr> = \<lparr>px = 0.0005, py = 0\<rparr> \<and>
   planarDistance \<lparr>px = 10, py = 0\<rparr> \<lparr>px = 0.0005, py = 0\<rparr> = 9.9995 \<and>
   cradius (nearNeighboursLocal ! 1) = 1 \<and>
   planarDistance \<lparr>px = 10, py = 0\<rparr> \<lparr>px = 0, py = 0\<rparr> = 10"
  by (simp add: nearNeighboursLocal_def onAxis_def updatePoint_def interiorTarget_horizontal
      closestOnSeg_def planarDistance_horizontal power2_eq_square Let_def)

text \<open>
  Claim C1, amended: for an interior index \<open>i\<close> whose neighbours \<open>A = opt[i - 1]\<close> and
  \<open>B = opt[i + 1]\<close> satisfy \<open>|B - A|\<^sup>2 \<ge> 1e-6\<close>, and a radius \<open>r \<ge> 0\<close>: the point \<open>Q\<close> the
  update computes lies on the segment \<open>A\<close>-\<open>B\<close> and no point of the segment is closer to
  the centre \<open>C\<close>; if \<open>Q\<close> is within \<open>r\<close> of \<open>C\<close> the new \<open>opt[i]\<close> is \<open>Q\<close>; otherwise the new
  \<open>opt[i]\<close> is at distance exactly \<open>r\<close> from \<open>C\<close>.
\<close>

theorem interior_update_nondegenerate:
  assumes i: "0 < i" "i < length opt - 1"
      and A: "A = opt ! (i - 1)" and B: "B = opt ! (i + 1)"
      and C: "C = \<lparr>px = cx (localPoints ! i), py = cy (localPoints ! i)\<rparr>"
      and r: "r = cradius (localPoints ! i)" "0 \<le> r"
      and nd: "1 / 1000000 \<le> (px B - px A)\<^sup>2 + (py B - py A)\<^sup>2"
      and Q: "Q = closestOnSeg A B C"
      and P: "P = updatePoint localPoints opt i ! i"
  shows "(\<exists>t. 0 \<le> t \<and> t \<le> 1 \<and>
              Q = \<lparr>px = px A + t * (px B - px A), py = py A + t * (py B - py A)\<rparr>) \<and>
         (\<forall>s. 0 \<le> s \<and> s \<le> 1 \<longrightarrow>
              planarDistance C Q
                \<le> planarDistance C \<lparr>px = px A + s * (px B - px A), py = py A + s * (py B - py A)\<rparr>) \<and>
         (planarDistance C Q \<le> r \<longrightarrow> P = Q) \<and>
         (r < planarDistance C Q \<longrightarrow> planarDistance C P = r)"
proof -
  have pos: "0 < (px B - px A)\<^sup>2 + (py B - py A)\<^sup>2" using nd by linarith
  have "i < length opt" using i by linarith
  then have PT: "P = interiorTarget (localPoints ! i) A B"
    using i by (simp add: P updatePoint_def A B Let_def)
  have seg: "\<exists>t. 0 \<le> t \<and> t \<le> 1 \<and>
              Q = \<lparr>px = px A + t * (px B - px A), py = py A + t * (py B - py A)\<rparr>"
    unfolding Q by (rule closestOnSeg_on_segment)
  have closest: "\<forall>s. 0 \<le> s \<and> s \<le> 1 \<longrightarrow>
              planarDistance C Q
                \<le> planarDistance C \<lparr>px = px A + s * (px B - px A), py = py A + s * (py B - py A)\<rparr>"
    unfolding Q using closestOnSeg_closest [OF pos] by blast
  from interiorTarget_nondegenerate [OF nd r(2) [unfolded r(1)] C Q]
  have "(planarDistance C Q \<le> r \<longrightarrow> P = Q) \<and> (r < planarDistance C Q \<longrightarrow> planarDistance C P = r)"
    unfolding PT r(1) .
  with seg closest show ?thesis by blast
qed

theorem interior_update_nondegenerate_witness:
  "updatePoint chordLocal (onAxis [0, 7, 10]) 1 ! 1 = \<lparr>px = 5, py = 0\<rparr>"
proof -
  let ?A = "\<lparr>px = 0, py = 0\<rparr>" and ?B = "\<lparr>px = 10, py = 0\<rparr>" and ?C = "\<lparr>px = 5, py = 1\<rparr>"
  have Q: "closestOnSeg ?A ?B ?C = \<lparr>px = 5, py = 0\<rparr>"
    by (simp add: closestOnSeg_def Let_def power2_eq_square)
  have d: "planarDistance ?C (closestOnSeg ?A ?B ?C) \<le> 2"
    unfolding Q by (simp add: planarDistance_vertical)
  have h1: "0 < (1::nat)" by simp
  have h2: "1 < length (onAxis [0, 7, 10]) - 1" by (simp add: onAxis_def)
  have h3: "?A = onAxis [0, 7, 10] ! (1 - 1)" by (simp add: onAxis_def)
  have h4: "?B = onAxis [0, 7, 10] ! (1 + 1)" by (simp add: onAxis_def)
  have h5: "?C = \<lparr>px = cx (chordLocal ! 1), py = cy (chordLocal ! 1)\<rparr>" by (simp add: chordLocal_def)
  have h6: "2 = cradius (chordLocal ! 1)" by (simp add: chordLocal_def)
  have h7: "(0::real) \<le> 2" by simp
  have h8: "1 / 1000000 \<le> (px ?B - px ?A)\<^sup>2 + (py ?B - py ?A)\<^sup>2" by simp
  note th = interior_update_nondegenerate [OF h1 h2 h3 h4 h5 h6 h7 h8 refl refl]
  from th have "planarDistance ?C (closestOnSeg ?A ?B ?C) \<le> 2 \<longrightarrow>
          updatePoint chordLocal (onAxis [0, 7, 10]) 1 ! 1 = closestOnSeg ?A ?B ?C"
    by (elim conjE)
  with d show ?thesis unfolding Q by (rule mp [rotated])
qed

subsection \<open>Evaluating the loop\<close>


lemma relaxPass_3:
  "length opt = 3 \<Longrightarrow> relaxPass localPoints opt =
     updatePoint localPoints (updatePoint localPoints (updatePoint localPoints opt 0) 1) 2"
  by (simp add: relaxPass_def numeral_3_eq_3 numeral_2_eq_2)

lemma funpow_fixpoint: "f y = y \<Longrightarrow> (f ^^ n) y = y"
  by (induction n) simp_all


lemma funpow_reaches_fixpoint:
  "f (f x) = y \<Longrightarrow> f y = y \<Longrightarrow> 2 \<le> n \<Longrightarrow> (f ^^ n) x = y"
proof -
  assume a: "f (f x) = y" "f y = y" "2 \<le> n"
  then obtain m where n: "n = m + 2" by (metis le_add_diff_inverse2)
  have "(f ^^ n) x = (f ^^ m) ((f ^^ 2) x)" unfolding n by (simp only: funpow_add o_apply)
  also have "(f ^^ 2) x = y" using a by (simp add: numeral_2_eq_2)
  also have "(f ^^ m) y = y" using a(2) by (rule funpow_fixpoint)
  finally show ?thesis .
qed

subsection \<open>Every point in its disk\<close>

text \<open>
  With radii that are not negative, an update keeps every point of the working buffer in
  its disk, except the interior update in the branch \<open>lab2 < 1e-6\<close>, which copies the
  position of the previous point.
\<close>

lemma boundaryToward_in_disk:
  assumes r: "0 \<le> cradius center"
      and cur: "planarDistance \<lparr>px = cx center, py = cy center\<rparr> current \<le> cradius center"
  shows "planarDistance \<lparr>px = cx center, py = cy center\<rparr> (boundaryToward center other current)
           \<le> cradius center"
proof -
  let ?dx = "px other - cx center" and ?dy = "py other - cy center"
  show ?thesis
  proof (cases "1 / 1000000 < sqrt (?dx * ?dx + ?dy * ?dy)")
    case True
    then have pos: "0 < sqrt (?dx * ?dx + ?dy * ?dy)" by linarith
    have tgt: "boundaryToward center other current =
            \<lparr>px = cx center + (?dx / sqrt (?dx * ?dx + ?dy * ?dy)) * cradius center,
             py = cy center + (?dy / sqrt (?dx * ?dx + ?dy * ?dy)) * cradius center\<rparr>"
      using True by (simp add: boundaryToward_def Let_def)
    show ?thesis
      unfolding tgt planarDistance_def using unit_scaled_length [OF pos, of "cradius center"] r
      by simp
  next
    case False
    then show ?thesis using cur by (simp add: boundaryToward_def Let_def)
  qed
qed

lemma interiorTarget_in_disk:
  assumes "0 \<le> cradius center"
      and "1 / 1000000 \<le> (px B - px A)\<^sup>2 + (py B - py A)\<^sup>2"
  shows "planarDistance \<lparr>px = cx center, py = cy center\<rparr> (interiorTarget center A B)
           \<le> cradius center"
  using interiorTarget_nondegenerate [OF assms(2,1) refl refl]
  by (cases "planarDistance \<lparr>px = cx center, py = cy center\<rparr>
               (closestOnSeg A B \<lparr>px = cx center, py = cy center\<rparr>) \<le> cradius center") auto

lemma updatePoint_keeps_disks:
  assumes inv: "\<forall>k < length opt. planarDistance \<lparr>px = cx (localPoints ! k), py = cy (localPoints ! k)\<rparr>
                   (opt ! k) \<le> cradius (localPoints ! k)"
      and r: "0 \<le> cradius (localPoints ! i)"
      and i: "i < length opt"
      and nd: "0 < i \<and> i < length opt - 1 \<longrightarrow>
                 1 / 1000000 \<le> (px (opt ! (i + 1)) - px (opt ! (i - 1)))\<^sup>2
                                + (py (opt ! (i + 1)) - py (opt ! (i - 1)))\<^sup>2"
  shows "\<forall>k < length opt. planarDistance \<lparr>px = cx (localPoints ! k), py = cy (localPoints ! k)\<rparr>
           (updatePoint localPoints opt i ! k) \<le> cradius (localPoints ! k)"
proof (intro allI impI)
  fix k assume k: "k < length opt"
  let ?C = "\<lambda>k. \<lparr>px = cx (localPoints ! k), py = cy (localPoints ! k)\<rparr>"
  show "planarDistance (?C k) (updatePoint localPoints opt i ! k) \<le> cradius (localPoints ! k)"
  proof (cases "k = i")
    case False
    then have "updatePoint localPoints opt i ! k = opt ! k"
      by (simp add: updatePoint_def Let_def)
    with inv k show ?thesis by simp
  next
    case True
    have cur: "planarDistance (?C i) (opt ! i) \<le> cradius (localPoints ! i)" using inv i by simp
    consider "i = 0" | "i \<noteq> 0" "i = length opt - 1" | "i \<noteq> 0" "i \<noteq> length opt - 1" by blast
    then show ?thesis
    proof cases
      case 1
      then show ?thesis unfolding True
        using boundaryToward_in_disk [OF r cur, of "opt ! (i + 1)"] i
        by (simp add: updatePoint_def Let_def)
    next
      case 2
      then show ?thesis unfolding True
        using boundaryToward_in_disk [OF r cur, of "opt ! (i - 1)"] i
        by (simp add: updatePoint_def Let_def)
    next
      case 3
      then have "0 < i \<and> i < length opt - 1" using i by linarith
      with nd have "1 / 1000000 \<le> (px (opt ! (i + 1)) - px (opt ! (i - 1)))\<^sup>2
                                + (py (opt ! (i + 1)) - py (opt ! (i - 1)))\<^sup>2" by blast
      from interiorTarget_in_disk [OF r this] 3 i show ?thesis unfolding True
        by (simp add: updatePoint_def Let_def)
    qed
  qed
qed

lemma outAndReturn_localPoints:
  "localPointsOf (relevantTPs outAndReturnTask) = outAndReturnLocal"
  by (simp add: outAndReturnTask_def outAndReturnLocal_def relevantTPs_def startIndexOf_def
      endIndexOf_def localPointsOf_def toLocal_def kxAt_def kyAt_def orNumber_def Let_def)

lemma outAndReturn_initialOpt: "initialOpt outAndReturnLocal = onAxis [0, 1111.32954, 0]"
  by (simp add: initialOpt_def outAndReturnLocal_def onAxis_def)

lemma outAndReturn_pass1:
  "relaxPass outAndReturnLocal (onAxis [0, 1111.32954, 0]) = onAxis [400, 1011.32954, 400]"
  by (simp add: relaxPass_3 onAxis_def outAndReturnLocal_def updatePoint_def
      boundaryToward_horizontal interiorTarget_horizontal Let_def power2_eq_square)

lemma outAndReturn_pass2:
  "relaxPass outAndReturnLocal (onAxis [400, 1011.32954, 400]) = onAxis [400, 400, 400]"
  by (simp add: relaxPass_3 onAxis_def outAndReturnLocal_def updatePoint_def
      boundaryToward_horizontal interiorTarget_horizontal Let_def power2_eq_square)

lemma outAndReturn_pass3:
  "relaxPass outAndReturnLocal (onAxis [400, 400, 400]) = onAxis [400, 400, 400]"
  by (simp add: relaxPass_3 onAxis_def outAndReturnLocal_def updatePoint_def
      boundaryToward_horizontal interiorTarget_horizontal Let_def power2_eq_square)

lemma outAndReturn_optimizedOpt:
  "optimizedOpt outAndReturnLocal = onAxis [400, 400, 400]"
  unfolding optimizedOpt_def outAndReturn_initialOpt
proof (rule funpow_reaches_fixpoint)
  show "relaxPass outAndReturnLocal (relaxPass outAndReturnLocal (onAxis [0, 1111.32954, 0]))
          = onAxis [400, 400, 400]"
    by (simp only: outAndReturn_pass1 outAndReturn_pass2)
  show "relaxPass outAndReturnLocal (onAxis [400, 400, 400]) = onAxis [400, 400, 400]"
    by (rule outAndReturn_pass3)
  show "2 \<le> ITERATIONS" by (simp add: ITERATIONS_def)
qed

text \<open>
  Claim C4: every point of the returned path lies inside or on the disk of its turnpoint.
  The task SSS (radius 400 m), TURNPOINT (radius 100 m, 0.01 degrees of longitude or
  1111.33 m to the east), ESS (radius 400 m, at the place of the SSS) is an out-and-return
  task. In the second pass the two neighbours of the turnpoint coincide at 400 m east of
  the start, the branch for \<open>lab2 < 1e-6\<close> moves the turnpoint's point onto them, and
  nothing changes afterwards: the returned path consists of three equal points, and the
  point for the turnpoint is 711.33 m from its centre, outside its 100 m disk.
\<close>

theorem out_and_return_leaves_the_turnpoint:
  "localPointsOf (relevantTPs outAndReturnTask) ! 1 = \<lparr>cx = 1111.32954, cy = 0, cradius = 100, calt = 0\<rparr> \<and>
   optimizedOpt (localPointsOf (relevantTPs outAndReturnTask)) ! 1 = \<lparr>px = 400, py = 0\<rparr> \<and>
   planarDistance \<lparr>px = 1111.32954, py = 0\<rparr> \<lparr>px = 400, py = 0\<rparr> = 711.32954 \<and>
   calculateOptimizedPath outAndReturnTask =
     [\<lparr>degLon = 400 / 111132.954, degLat = 0, height = 0\<rparr>,
      \<lparr>degLon = 400 / 111132.954, degLat = 0, height = 0\<rparr>,
      \<lparr>degLon = 400 / 111132.954, degLat = 0, height = 0\<rparr>]"
proof -
  have "calculateOptimizedPath outAndReturnTask =
     [\<lparr>degLon = 400 / 111132.954, degLat = 0, height = 0\<rparr>,
      \<lparr>degLon = 400 / 111132.954, degLat = 0, height = 0\<rparr>,
      \<lparr>degLon = 400 / 111132.954, degLat = 0, height = 0\<rparr>]"
    unfolding calculateOptimizedPath_def Let_def outAndReturn_localPoints outAndReturn_optimizedOpt
    by (simp add: outAndReturnTask_def relevantTPs_def startIndexOf_def endIndexOf_def
        outAndReturnLocal_def onAxis_def fromLocal_def kxAt_def kyAt_def Let_def)
  moreover have "localPointsOf (relevantTPs outAndReturnTask) ! 1
                   = \<lparr>cx = 1111.32954, cy = 0, cradius = 100, calt = 0\<rparr>"
    unfolding outAndReturn_localPoints by (simp add: outAndReturnLocal_def)
  moreover have "optimizedOpt (localPointsOf (relevantTPs outAndReturnTask)) ! 1 = \<lparr>px = 400, py = 0\<rparr>"
    unfolding outAndReturn_localPoints outAndReturn_optimizedOpt by (simp add: onAxis_def)
  moreover have "planarDistance \<lparr>px = 1111.32954, py = 0\<rparr> \<lparr>px = 400, py = 0\<rparr> = 711.32954"
    by (simp add: planarDistance_horizontal)
  ultimately show ?thesis by (simp only: simp_thms)
qed

subsection \<open>The length of the path\<close>















section \<open>Non-finite values in the optimizer\<close>

subsection \<open>The real-number model is the finite part of the JavaScript-number model\<close>

text \<open>
  On finite numbers the operators compute what the real operators compute, where the
  divisor is not zero and the argument of the square root is not negative.
\<close>

lemma Num_plus [simp]: "Num a + Num b = Num (a + b)" by (simp add: plus_jsnum_def)
lemma Num_minus [simp]: "Num a - Num b = Num (a - b)" by (simp add: minus_jsnum_def)
lemma Num_times [simp]: "Num a * Num b = Num (a * b)" by (simp add: times_jsnum_def)
lemma Num_divide [simp]: "b \<noteq> 0 \<Longrightarrow> Num a / Num b = Num (a / b)" by (simp add: divide_jsnum_def)
lemma Num_less [simp]: "Num a < Num b \<longleftrightarrow> a < b" by (simp add: less_jsnum_def)
lemma Num_less_eq [simp]: "Num a \<le> Num b \<longleftrightarrow> a \<le> b" by (simp add: less_eq_jsnum_def)
lemma Num_max [simp]: "jsMax (Num a) (Num b) = Num (max a b)" by (simp add: jsMax_def max_def)
lemma Num_min [simp]: "jsMin (Num a) (Num b) = Num (min a b)" by (simp add: jsMin_def min_def)
lemma Num_sqrt: "0 \<le> a \<Longrightarrow> jsSqrt (Num a) = Num (sqrt a)" by simp
lemma Num_sqrt_sum [simp]: "jsSqrt (Num (a * a + b * b)) = Num (sqrt (a * a + b * b))"
  by (rule Num_sqrt) simp
















lemma turnpointsJ_taskJ [simp]: "turnpointsJ (taskJ task) = map taskPointJ (turnpoints task)"
  by (simp add: taskJ_def)

lemma typeJ_taskPointJ [simp]: "typeJ (taskPointJ tp) = type tp"
  by (simp add: taskPointJ_def)




subsection \<open>An infinite radius\<close>











end

